theory Spec2Isabelle
  imports Main "HOL-Library.AList"
begin

section \<open>JavaScript objects\<close>

text \<open>
  An object is the list of its own enumerable string-keyed properties in insertion order.
  Assigning to a key that exists replaces the value where the key stands, assigning to a
  new key appends it: that is \<open>AList.update\<close>. (JavaScript moves keys that are
  canonical array indices to the front; no key written by this program is one, the
  generated ones all start with \<open>./\<close>.)
\<close>

type_synonym 'v obj = "(string \<times> 'v) list"

text \<open>\<open>{...target, ...src}\<close>: every own property of \<open>src\<close>, in order, is assigned.\<close>

definition obj_spread :: "'v obj \<Rightarrow> 'v obj \<Rightarrow> 'v obj" where
  "obj_spread target src = fold (\<lambda>(k, v) acc. AList.update k v acc) src target"

section \<open>mergeOptions\<close>

text \<open>
  \<open>return { ...defaults, ...config, ...overrides }\<close>. The field values are never
  inspected, so the model is polymorphic in them.
\<close>

definition mergeOptions :: "'v obj \<Rightarrow> 'v obj \<Rightarrow> 'v obj \<Rightarrow> 'v obj" where
  "mergeOptions config overrides defaults =
     obj_spread (obj_spread (obj_spread [] defaults) config) overrides"

section \<open>The path module\<close>

text \<open>
  The program reads \<open>parse\<close> and \<open>join\<close> from Node's \<open>path\<close>, which is
  \<open>path.posix\<close> or \<open>path.win32\<close> according to the host; \<open>cwd\<close> is the
  module-level \<open>process.cwd()\<close>. The functions of this program take the host as a
  parameter.
\<close>

record parsed_path =
  root :: string
  dir :: string
  base :: string
  ext :: string
  name :: string

record host =
  parse :: "string \<Rightarrow> parsed_path"
  join :: "string list \<Rightarrow> string"
  cwd :: string

definition backslash :: char where
  "backslash = CHR 0x5C"

definition posix_sep :: "char \<Rightarrow> bool" where
  "posix_sep c = (c = CHR ''/'')"

definition win32_sep :: "char \<Rightarrow> bool" where
  "win32_sep c = (c = CHR ''/'' \<or> c = backslash)"

fun split_on :: "(char \<Rightarrow> bool) \<Rightarrow> string \<Rightarrow> string list" where
  "split_on sep [] = [[]]"
| "split_on sep (c # cs) =
     (if sep c then [] # split_on sep cs
      else (case split_on sep cs of [] \<Rightarrow> [[c]] | w # ws \<Rightarrow> (c # w) # ws))"

fun join_with :: "string \<Rightarrow> string list \<Rightarrow> string" where
  "join_with s [] = []"
| "join_with s [x] = x"
| "join_with s (x # y # ys) = x @ s @ join_with s (y # ys)"

text \<open>
  \<open>normalizeString\<close> of Node's \<open>lib/path.js\<close>, on the segments between separators:
  empty segments and \<open>.\<close> vanish, \<open>..\<close> removes the segment before it unless there
  is none or it is \<open>..\<close> itself, in which case it stays when \<open>allowAboveRoot\<close>.
\<close>

definition normalize_step :: "bool \<Rightarrow> string list \<Rightarrow> string \<Rightarrow> string list" where
  "normalize_step allowAboveRoot res seg =
     (if seg = [] \<or> seg = ''.'' then res
      else if seg = ''..'' then
        (if res \<noteq> [] \<and> last res \<noteq> ''..'' then butlast res
         else if allowAboveRoot then res @ [''..''] else res)
      else res @ [seg])"

definition normalizeString :: "(char \<Rightarrow> bool) \<Rightarrow> string \<Rightarrow> bool \<Rightarrow> string \<Rightarrow> string" where
  "normalizeString is_sep separator allowAboveRoot path =
     join_with separator (foldl (normalize_step allowAboveRoot) [] (split_on is_sep path))"

text \<open>
  The extension of the last path component, as \<open>parse\<close> finds it: it starts at the last
  dot, unless there is no dot, the last dot is the first character, or the component is
  \<open>..\<close> (the last case only where \<open>parse\<close> compares the dot with \<open>startPart + 1\<close>
  and that is the second character of the component).
\<close>

definition split_ext :: "bool \<Rightarrow> string \<Rightarrow> string \<times> string" where
  "split_ext dotdot b =
     (if CHR ''.'' \<notin> set b then (b, [])
      else let d = length b - 1 - length (takeWhile (\<lambda>c. c \<noteq> CHR ''.'') (rev b))
           in if d = 0 then (b, [])
              else if dotdot \<and> b = ''..'' then (b, [])
              else (take d b, drop d b))"

definition strip_trailing :: "(char \<Rightarrow> bool) \<Rightarrow> string \<Rightarrow> string" where
  "strip_trailing is_sep s = rev (dropWhile is_sep (rev s))"

definition last_part :: "(char \<Rightarrow> bool) \<Rightarrow> string \<Rightarrow> string" where
  "last_part is_sep s = rev (takeWhile (\<lambda>c. \<not> is_sep c) (rev s))"

definition before_last_part :: "(char \<Rightarrow> bool) \<Rightarrow> string \<Rightarrow> string" where
  "before_last_part is_sep s = rev (dropWhile (\<lambda>c. \<not> is_sep c) (rev s))"

text \<open>
  \<open>path.posix.parse\<close>. The scan runs from the end of the path down to \<open>start\<close> (1 for
  an absolute path): trailing separators are skipped, the component up to the next
  separator is \<open>base\<close>, and \<open>dir\<close> is what stands before that separator.
\<close>

definition posix_parse :: "string \<Rightarrow> parsed_path" where
  "posix_parse path =
     (if path = [] then \<lparr>root = [], dir = [], base = [], ext = [], name = []\<rparr>
      else
        let isAbsolute = (hd path = CHR ''/'');
            rt = (if isAbsolute then ''/'' else []);
            scanned = strip_trailing posix_sep (if isAbsolute then tl path else path);
            b = last_part posix_sep scanned;
            lead = before_last_part posix_sep scanned;
            d = (if lead \<noteq> [] then rt @ butlast lead else rt);
            (n, e) = (if scanned = [] then ([], [])
                      else split_ext (lead \<noteq> [] \<or> \<not> isAbsolute) b)
        in \<lparr>root = rt, dir = d, base = b, ext = e, name = n\<rparr>)"

text \<open>\<open>path.posix.normalize\<close> and \<open>path.posix.join\<close>.\<close>

definition posix_normalize :: "string \<Rightarrow> string" where
  "posix_normalize path =
     (if path = [] then ''.''
      else
        let isAbsolute = (hd path = CHR ''/'');
            trailingSeparator = (last path = CHR ''/'');
            p = normalizeString posix_sep ''/'' (\<not> isAbsolute) path
        in if p = [] then (if isAbsolute then ''/'' else if trailingSeparator then ''./'' else ''.'')
           else (if isAbsolute then ''/'' else []) @ p @ (if trailingSeparator then ''/'' else []))"

definition posix_join :: "string list \<Rightarrow> string" where
  "posix_join args =
     (let parts = filter (\<lambda>a. a \<noteq> []) args
      in if parts = [] then ''.'' else posix_normalize (join_with ''/'' parts))"

text \<open>
  \<open>path.win32\<close>, for paths without a root: no leading separator, no drive letter and no
  colon. (For a rooted path Node first splits the root off, which is not modelled; no path
  of this program's configuration has one.) Both \<open>/\<close> and the backslash separate, and
  \<open>join\<close> and \<open>normalize\<close> write the backslash.
\<close>

definition win32_parse :: "string \<Rightarrow> parsed_path" where
  "win32_parse path =
     (let scanned = strip_trailing win32_sep path;
          b = last_part win32_sep scanned;
          lead = before_last_part win32_sep scanned;
          (n, e) = (if scanned = [] then ([], []) else split_ext True b)
      in \<lparr>root = [], dir = butlast lead, base = b, ext = e, name = n\<rparr>)"

definition win32_normalize :: "string \<Rightarrow> string" where
  "win32_normalize path =
     (if path = [] then ''.''
      else
        let t = normalizeString win32_sep [backslash] True path;
            tail = (if t = [] then ''.'' else t)
        in tail @ (if win32_sep (last path) then [backslash] else []))"

definition win32_join :: "string list \<Rightarrow> string" where
  "win32_join args =
     (let parts = filter (\<lambda>a. a \<noteq> []) args
      in if parts = [] then ''.'' else win32_normalize (join_with [backslash] parts))"

definition posix_host :: "string \<Rightarrow> host" where
  "posix_host wd = \<lparr>parse = posix_parse, join = posix_join, cwd = wd\<rparr>"

definition win32_host :: "string \<Rightarrow> host" where
  "win32_host wd = \<lparr>parse = win32_parse, join = win32_join, cwd = wd\<rparr>"

section \<open>JSON values and their text\<close>

text \<open>
  JavaScript values: those of a parsed manifest, and functions, which are opaque and
  known by a name (\<open>JFun\<close>). \<open>JUndefined\<close> is also the value of a property that is
  absent. Numbers are the integers (below \<open>10^21\<close> in size, which JavaScript prints in
  plain decimal).
\<close>

datatype jsval =
    JUndefined
  | JNull
  | JBool bool
  | JNum int
  | JStr string
  | JArr "jsval list"
  | JObj "(string \<times> jsval) list"
  | JFun string

fun typeof :: "jsval \<Rightarrow> string" where
  "typeof JUndefined = ''undefined''"
| "typeof JNull = ''object''"
| "typeof (JBool b) = ''boolean''"
| "typeof (JNum n) = ''number''"
| "typeof (JStr s) = ''string''"
| "typeof (JArr xs) = ''object''"
| "typeof (JObj ps) = ''object''"
| "typeof (JFun f) = ''function''"

fun isArray :: "jsval \<Rightarrow> bool" where
  "isArray (JArr xs) = True"
| "isArray v = False"

fun is_plain_object :: "jsval \<Rightarrow> bool" where
  "is_plain_object (JObj ps) = True"
| "is_plain_object v = False"


text \<open>\<open>o[k]\<close> for an own property, \<open>undefined\<close> when there is none.\<close>

definition member :: "jsval obj \<Rightarrow> string \<Rightarrow> jsval" where
  "member ob k = (case map_of ob k of Some v \<Rightarrow> v | None \<Rightarrow> JUndefined)"

fun decimal :: "nat \<Rightarrow> string" where
  "decimal n = (if n < 10 then [''0123456789'' ! n]
                else decimal (n div 10) @ [''0123456789'' ! (n mod 10)])"

declare decimal.simps [simp del]

definition number_text :: "int \<Rightarrow> string" where
  "number_text n = (if n < 0 then ''-'' @ decimal (nat (- n)) else decimal (nat n))"

text \<open>\<open>QuoteJSONString\<close>: the short escapes, \<open>\u00xx\<close> for the other control characters.\<close>

definition quote_char :: "char \<Rightarrow> string" where
  "quote_char c =
     (let n = (of_char c :: nat) in
      if n = 8 then [backslash, CHR ''b'']
      else if n = 9 then [backslash, CHR ''t'']
      else if n = 10 then [backslash, CHR ''n'']
      else if n = 12 then [backslash, CHR ''f'']
      else if n = 13 then [backslash, CHR ''r'']
      else if n = 34 then [backslash, c]
      else if n = 92 then [backslash, c]
      else if n < 32 then
        [backslash, CHR ''u'', CHR ''0'', CHR ''0'',
         ''0123456789abcdef'' ! (n div 16), ''0123456789abcdef'' ! (n mod 16)]
      else [c])"

definition quote :: "string \<Rightarrow> string" where
  "quote s = [CHR 0x22] @ concat (map quote_char s) @ [CHR 0x22]"

text \<open>
  \<open>JSON.stringify(v, null, 2)\<close>: \<open>stringify ind v\<close> is \<open>SerializeJSONProperty\<close> at the
  indentation \<open>ind\<close>, \<open>None\<close> for \<open>undefined\<close>. A property whose value is
  \<open>undefined\<close> is left out of an object, and stands as \<open>null\<close> in an array.
\<close>

fun stringify :: "string \<Rightarrow> jsval \<Rightarrow> string option"
  and stringify_elems :: "string \<Rightarrow> jsval list \<Rightarrow> string list"
  and stringify_props :: "string \<Rightarrow> (string \<times> jsval) list \<Rightarrow> string list" where
  "stringify ind JUndefined = None"
| "stringify ind JNull = Some ''null''"
| "stringify ind (JBool b) = Some (if b then ''true'' else ''false'')"
| "stringify ind (JNum n) = Some (number_text n)"
| "stringify ind (JStr s) = Some (quote s)"
| "stringify ind (JFun f) = None"
| "stringify ind (JArr xs) =
     (let partial = stringify_elems (ind @ ''  '') xs
      in if partial = [] then Some ''[]''
         else Some (''['' @ [CHR 0x0A] @ ind @ ''  ''
                    @ join_with ('','' @ [CHR 0x0A] @ ind @ ''  '') partial
                    @ [CHR 0x0A] @ ind @ '']''))"
| "stringify ind (JObj ps) =
     (let partial = stringify_props (ind @ ''  '') ps
      in if partial = [] then Some ''{}''
         else Some (''{'' @ [CHR 0x0A] @ ind @ ''  ''
                    @ join_with ('','' @ [CHR 0x0A] @ ind @ ''  '') partial
                    @ [CHR 0x0A] @ ind @ ''}''))"
| "stringify_elems ind [] = []"
| "stringify_elems ind (x # xs) =
     (case stringify ind x of None \<Rightarrow> ''null'' | Some t \<Rightarrow> t) # stringify_elems ind xs"
| "stringify_props ind [] = []"
| "stringify_props ind ((k, v) # ps) =
     (case stringify ind v of
        None \<Rightarrow> stringify_props ind ps
      | Some t \<Rightarrow> (quote k @ '': '' @ t) # stringify_props ind ps)"

definition JSON_stringify :: "jsval \<Rightarrow> string" where
  "JSON_stringify v = (case stringify [] v of None \<Rightarrow> ''undefined'' | Some t \<Rightarrow> t)"

section \<open>The manifest\<close>

record entry =
  "file" :: string
  format :: string

text \<open>
  \<open>formatToType\<close> and \<open>formatToExt\<close> are object literals, so \<open>formatToType[format]\<close>
  also finds what a plain object inherits from \<open>Object.prototype\<close>. \<open>property\<close>
  gives the value read as the string it converts to (an own value of these tables is a
  string already), \<open>None\<close> for \<open>undefined\<close>. The inherited values are the built-in
  functions, printed as V8 prints them, and \<open>__proto__\<close>, which is \<open>Object.prototype\<close>
  itself; all of them are truthy.
\<close>

definition native :: "string \<Rightarrow> string" where
  "native f = ''function '' @ f @ ''() { [native code] }''"

definition Object_prototype :: "string obj" where
  "Object_prototype =
     [(''constructor'', native ''Object''),
      (''__defineGetter__'', native ''__defineGetter__''),
      (''__defineSetter__'', native ''__defineSetter__''),
      (''hasOwnProperty'', native ''hasOwnProperty''),
      (''__lookupGetter__'', native ''__lookupGetter__''),
      (''__lookupSetter__'', native ''__lookupSetter__''),
      (''isPrototypeOf'', native ''isPrototypeOf''),
      (''propertyIsEnumerable'', native ''propertyIsEnumerable''),
      (''toString'', native ''toString''),
      (''valueOf'', native ''valueOf''),
      (''__proto__'', ''[object Object]''),
      (''toLocaleString'', native ''toLocaleString'')]"

definition property :: "string obj \<Rightarrow> string \<Rightarrow> string option" where
  "property ob k =
     (case map_of ob k of Some v \<Rightarrow> Some v | None \<Rightarrow> map_of Object_prototype k)"

definition formatToType :: "string obj" where
  "formatToType = [(''cjs'', ''require''), (''esm'', ''module''), (''iife'', ''module'')]"

definition formatToExt :: "string obj" where
  "formatToExt = [(''cjs'', ''.js''), (''esm'', ''.mjs''), (''iife'', ''.js'')]"

text \<open>\<open>s.replace(pat, rep)\<close> with a string pattern: the first occurrence only.\<close>

fun replace_first :: "string \<Rightarrow> string \<Rightarrow> string \<Rightarrow> string" where
  "replace_first pat rep [] = (if pat = [] then rep else [])"
| "replace_first pat rep (c # cs) =
     (if take (length pat) (c # cs) = pat then rep @ drop (length pat) (c # cs)
      else c # replace_first pat rep cs)"

text \<open>Lines 256 and 257: the key of an entry's file in the export map.\<close>

definition outputKey :: "host \<Rightarrow> string \<Rightarrow> string" where
  "outputKey H f =
     (let p = parse H f
      in ''./'' @ join H [replace_first ''./src'' ''./dist'' (dir p), name p])"

text \<open>
  The reducer of \<open>updatePackageJson\<close>. \<open>acc[key] || {types: ...}\<close> keeps a group that
  is there (a group is an object, hence truthy); no key is inherited, each starts with
  \<open>./\<close>. Where \<open>formatToExt[format]\<close> is \<open>undefined\<close> the template prints that word.
\<close>

definition group_entry :: "host \<Rightarrow> string obj obj \<Rightarrow> entry \<Rightarrow> string obj obj" where
  "group_entry H acc e =
     (case property formatToType (format e) of
        None \<Rightarrow> acc
      | Some type \<Rightarrow>
          if type = [] then acc
          else
            let key = outputKey H (file e);
                grp = (case map_of acc key of
                         Some g \<Rightarrow> g
                       | None \<Rightarrow> [(''types'', key @ ''.d.ts'')]);
                extn = (case property formatToExt (format e) of
                          Some x \<Rightarrow> x
                        | None \<Rightarrow> ''undefined'')
            in AList.update key (AList.update type (key @ extn) grp) acc)"

definition grouped :: "host \<Rightarrow> entry list \<Rightarrow> string obj obj" where
  "grouped H entries = foldl (group_entry H) [] entries"

definition group_value :: "string obj \<Rightarrow> jsval" where
  "group_value g = JObj (map (\<lambda>(k, v). (k, JStr v)) g)"

definition exports_value :: "string obj obj \<Rightarrow> jsval" where
  "exports_value g =
     JObj (obj_spread [(''./package.json'', JStr ''./package.json'')]
             (map (\<lambda>(k, grp). (k, group_value grp)) g))"

text \<open>
  Modelled from the spec: \<open>sortPkg\<close> is the package \<open>sort-package-json\<close>, which is not
  part of this repository. Of it the spec says that the keys of the whole manifest are
  reordered by a stable canonical ordering: a stable sort of the top-level properties by
  the rank of their key, with the ranking \<open>rank\<close> a parameter.
\<close>

definition sortPkg :: "(string \<Rightarrow> nat) \<Rightarrow> jsval obj \<Rightarrow> jsval obj" where
  "sortPkg rank pkg = sort_key (\<lambda>p. rank (fst p)) pkg"

text \<open>
  \<open>updatePackageJson\<close> returns the manifest object as it stands afterwards (the source
  assigns to \<open>pkg.exports\<close> in place) and the write it performs, if any: the path and
  the text given to \<open>writeFile\<close>.
\<close>

definition updatePackageJson ::
  "host \<Rightarrow> (string \<Rightarrow> nat) \<Rightarrow> jsval obj \<Rightarrow> entry list \<Rightarrow> jsval obj \<times> (string \<times> string) option" where
  "updatePackageJson H rank pkg entries =
     (let g = grouped H entries
      in if (typeof (member pkg ''exports'') = ''object'' \<and> \<not> isArray (member pkg ''exports''))
            \<or> member pkg ''exports'' = JUndefined
         then
           let pkg' = AList.update ''exports'' (exports_value g) pkg
           in (pkg', Some (join H [cwd H, ''package.json''],
                           JSON_stringify (JObj (sortPkg rank pkg')) @ [CHR 0x0A]))
         else (pkg, None))"

text \<open>\<open>g[key][c]\<close>, the path registered for a condition in the group of a key.\<close>

definition condition :: "string obj obj \<Rightarrow> string \<Rightarrow> string \<Rightarrow> string option" where
  "condition g key c = (case map_of g key of None \<Rightarrow> None | Some grp \<Rightarrow> map_of grp c)"

text \<open>A ranking to run \<open>sortPkg\<close> with: name, version, then the other keys, exports last.\<close>

definition example_rank :: "string \<Rightarrow> nat" where
  "example_rank k =
     (if k = ''name'' then 0 else if k = ''version'' then 1 else if k = ''exports'' then 3 else 2)"

section \<open>getOptionsArray\<close>

text \<open>
  What calling a function gives: a value, a promise that is fulfilled with a value, or
  a failure (it throws, or its promise is rejected). \<open>await\<close> treats the first two alike.
  The behaviour of the functions, which are opaque values, is the parameter \<open>call\<close>.
\<close>

datatype outcome = Returns jsval | Resolves jsval | Fails

datatype error = Rejected | No_tsup_configs

fun await :: "outcome \<Rightarrow> error + jsval" where
  "await (Returns v) = Inr v"
| "await (Resolves v) = Inr v"
| "await Fails = Inl Rejected"

text \<open>\<open>[].concat(x)\<close>: the elements of an array, any other value as one element.\<close>

fun concat_arg :: "jsval \<Rightarrow> jsval list" where
  "concat_arg (JArr xs) = xs"
| "concat_arg v = [v]"

fun elements :: "jsval \<Rightarrow> jsval list" where
  "elements (JArr xs) = xs"
| "elements v = []"

definition getOptionsArray :: "(string \<Rightarrow> jsval \<Rightarrow> outcome) \<Rightarrow> jsval \<Rightarrow> error + jsval list" where
  "getOptionsArray call config =
     (if isArray config then Inr (elements config)
      else if typeof config = ''object'' then Inr [config]
      else if typeof config = ''function'' then
        (case config of
           JFun f \<Rightarrow>
             (case await (call f (JObj [])) of
                Inl e \<Rightarrow> Inl e
              | Inr r \<Rightarrow> Inr (concat_arg r))
         | _ \<Rightarrow> Inr [])
      else Inr [])"

text \<open>Two configuration functions: one returns a bare path, one a list of descriptors.\<close>

fun example_call :: "string \<Rightarrow> jsval \<Rightarrow> outcome" where
  "example_call f ctx =
     (if f = ''bare'' then Returns (JStr ''./src/index.ts'')
      else if f = ''sync'' then Returns (JArr [JObj [(''format'', JStr ''esm'')]])
      else if f = ''async'' then Resolves (JArr [JObj [(''format'', JStr ''esm'')]])
      else Fails)"

section \<open>The driver\<close>

text \<open>
  The values of a build descriptor, as tsup's \<open>Options\<close> types them: \<open>entry\<close> is a
  list of paths or a record of paths by name, \<open>format\<close> one tag or a list of tags; the
  other options are plain values, or functions and plugins, which are opaque. \<open>Assign\<close>
  is the hook \<open>(c) => Object.assign(c, {...})\<close> with the properties it assigns.
\<close>

datatype optval =
    Files "string list"
  | Named "(string \<times> string) list"
  | Tag string
  | Tags "string list"
  | Plain jsval
  | Assign "(string \<times> optval) list"
  | Opaque string

type_synonym options = "optval obj"

text \<open>
  What the driver does to the world, in the order it starts it. \<open>Dts_mapper f\<close> is the
  call \<open>generateDTSMapperFile(f)\<close>, which ensures and writes the stub file of \<open>f\<close> on
  every path through its body.
\<close>

datatype effect =
    Import_module string
  | Read_file string
  | Empty_dir string
  | Build options
  | Dts_mapper string
  | Write_file string string
  | Console_log string
  | Console_error_stack error
  | Process_exit nat

definition hasFlag :: "string list \<Rightarrow> string \<Rightarrow> bool" where
  "hasFlag flags nm = list_ex (\<lambda>s. take (length (''--'' @ nm)) s = ''--'' @ nm) flags"

definition define_production :: optval where
  "define_production =
     Plain (JObj [(''process.env.NODE_ENV'', JStr ([CHR 0x22] @ ''production'' @ [CHR 0x22])),
                  (''process.env.NODE_DEBUG'', JStr [CHR 0x22, CHR 0x22]),
                  (''process.env.FORCE_SIMILAR_INSTEAD_OF_MAP'',
                   JStr ([CHR 0x22] @ ''false'' @ [CHR 0x22]))])"

definition getBaseOptions :: "host \<Rightarrow> bool \<Rightarrow> bool \<Rightarrow> options \<times> options" where
  "getBaseOptions H watch optimized =
     ([(''config'', Plain (JBool False)),
       (''silent'', Plain (JBool (\<not> watch))),
       (''treeshake'', Plain (JBool True)),
       (''sourcemap'', Plain (JBool False)),
       (''shims'', Plain (JBool False)),
       (''outDir'', Plain (JStr (join H [cwd H, ''dist'']))),
       (''esbuildOptions'',
        Assign [(''outbase'', Plain (JStr (join H [cwd H, ''src'']))),
                (''logLevel'', Plain (JStr ''error'')),
                (''legalComments'', Plain (JStr ''none'')),
                (''minifyWhitespace'', Plain (JBool optimized)),
                (''minifyIdentifiers'', Plain (JBool False)),
                (''minifySyntax'', Plain (JBool optimized))]),
       (''define'', define_production)],
      [(''watch'', Plain (JBool watch)),
       (''clean'', Plain (JBool False))])"

text \<open>
  Lines 53 to 60. An absent \<open>entry\<close> is falsy; an array or a record is truthy, also when
  empty. \<open>[].concat(formatRaw)\<close> of an absent format is \<open>[undefined]\<close>; a format is only
  ever used as a property key, and the key of \<open>undefined\<close> is that word. (Values of
  other shapes than \<open>Options\<close> allows are read as absent.)
\<close>

definition entry_files :: "options \<Rightarrow> string list option" where
  "entry_files config =
     (case map_of config ''entry'' of
        Some (Files fs) \<Rightarrow> Some fs
      | Some (Named m) \<Rightarrow> Some (map snd m)
      | _ \<Rightarrow> None)"

definition formats :: "options \<Rightarrow> string list" where
  "formats config =
     (case map_of config ''format'' of
        Some (Tag t) \<Rightarrow> [t]
      | Some (Tags ts) \<Rightarrow> ts
      | _ \<Rightarrow> [''undefined''])"

definition entries_of :: "options \<Rightarrow> entry list" where
  "entries_of config =
     (case entry_files config of
        None \<Rightarrow> []
      | Some fs \<Rightarrow>
          concat (map (\<lambda>f. map (\<lambda>fmt. \<lparr>file = f, format = fmt\<rparr>) (formats config)) fs))"

definition prebuild_files :: "string list" where
  "prebuild_files =
     [''./src/prebuild/manager/runtime.ts'',
      ''./src/prebuild/manager/globals-runtime.ts'',
      ''./src/prebuild/preview/globals-runtime.ts'']"

definition aliasPlugin :: optval where
  "aliasPlugin = Opaque ''aliasPlugin({process: process/browser.js, util: util/util.js})''"

definition targets :: optval where
  "targets = Plain (JArr [JStr ''chrome100'', JStr ''safari15'', JStr ''firefox91''])"

definition runtime_build :: "host \<Rightarrow> options" where
  "runtime_build H =
     [(''entry'', Files [''./src/modules/manager/runtime.ts'',
                         ''./src/modules/manager/globals-runtime.ts'',
                         ''./src/modules/preview/globals-runtime.ts'']),
      (''format'', Tags [''esm'']),
      (''external'', Plain (JArr [])),
      (''config'', Plain (JBool False)),
      (''clean'', Plain (JBool False)),
      (''outDir'', Plain (JStr (join H [cwd H, ''dist/prebuild'']))),
      (''outExtension'', Opaque ''() => ({js: .js})''),
      (''define'', define_production),
      (''esbuildPlugins'', aliasPlugin),
      (''target'', targets)]"

text \<open>
  \<open>globalManagerPackages\<close> is imported from a module outside this file; it is the
  parameter \<open>gmp\<close>.
\<close>

definition preset_build :: "host \<Rightarrow> string list \<Rightarrow> options" where
  "preset_build H gmp =
     [(''entry'', Files [''./src/modules/core-server/presets/common-manager.ts'']),
      (''format'', Tags [''esm'']),
      (''config'', Plain (JBool False)),
      (''external'', Plain (JArr (map JStr gmp))),
      (''clean'', Plain (JBool False)),
      (''outDir'', Plain (JStr (join H [cwd H, ''dist/modules/core-server/presets'']))),
      (''define'', define_production),
      (''esbuildPlugins'', aliasPlugin),
      (''target'', targets)]"

text \<open>
  \<open>run\<close>, from the moment the configuration list and the manifest are loaded, together
  with the handler at the end of the file. The result is the trace of effects and the exit
  status of the process. The imports, reads, builds and writes themselves succeed: the only
  failure is the one the driver raises. \<open>ci\<close> is \<open>process.env.CI\<close>.
\<close>

definition run ::
  "host \<Rightarrow> (string \<Rightarrow> nat) \<Rightarrow> string list \<Rightarrow> string option \<Rightarrow> string list
     \<Rightarrow> options list \<Rightarrow> jsval obj \<Rightarrow> effect list \<times> nat" where
  "run H rank gmp ci flags configs pkg =
     (let reset = hasFlag flags ''reset'';
          watch = hasFlag flags ''watch'';
          optimized = hasFlag flags ''optimized'';
          utils = [Import_module (join H [cwd H, ''tsup.config.ts'']),
                   Read_file (join H [cwd H, ''package.json''])];
          emptied = (if reset then [Empty_dir (join H [cwd H, ''dist''])] else []);
          (defaults, overrides) = getBaseOptions H watch optimized
      in if length configs < 1
         then (utils @ emptied @ [Console_error_stack No_tsup_configs, Process_exit 1], 1)
         else
           let builds = map (\<lambda>config. Build (mergeOptions config overrides defaults)) configs;
               entries = concat (map entries_of configs);
               mappers = (if \<not> optimized then map (\<lambda>e. Dts_mapper (file e)) entries else []);
               manifest =
                 (case snd (updatePackageJson H rank pkg
                              (entries @ map (\<lambda>f. \<lparr>file = f, format = ''iife''\<rparr>) prebuild_files)) of
                    None \<Rightarrow> []
                  | Some (path, text) \<Rightarrow> [Write_file path text])
           in (utils @ emptied @ builds @ mappers @ manifest
                 @ [Build (runtime_build H)]
                 @ map Dts_mapper prebuild_files
                 @ [Build (preset_build H gmp)]
                 @ (if ci \<noteq> Some ''true'' then [Console_log ''done''] else []),
               0))"

text \<open>Which effects are calls of the stub generator, and which produce files at all.\<close>

fun is_mapper :: "effect \<Rightarrow> bool" where
  "is_mapper (Dts_mapper f) = True"
| "is_mapper x = False"

fun produces :: "effect \<Rightarrow> bool" where
  "produces (Build opts) = True"
| "produces (Dts_mapper f) = True"
| "produces (Write_file path text) = True"
| "produces x = False"

section \<open>Facts about objects\<close>

lemma obj_spread_Cons:
  "obj_spread target ((k, v) # src) = obj_spread (AList.update k v target) src"
  by (simp add: obj_spread_def)

lemma map_of_obj_spread:
  "distinct (map fst src) \<Longrightarrow>
   map_of (obj_spread target src) x =
     (case map_of src x of Some v \<Rightarrow> Some v | None \<Rightarrow> map_of target x)"
proof (induction src arbitrary: target)
  case Nil
  show ?case by (simp add: obj_spread_def)
next
  case (Cons p src)
  obtain k v where p: "p = (k, v)" by (cases p)
  from Cons.prems have k: "map_of src k = None" and d: "distinct (map fst src)"
    by (auto simp: p map_of_eq_None_iff)
  show ?case
    using k by (simp add: p obj_spread_Cons Cons.IH [OF d] update_conv split: option.splits)
qed

lemma obj_spread_append:
  "distinct (map fst src) \<Longrightarrow> fst ` set acc \<inter> fst ` set src = {} \<Longrightarrow>
   obj_spread acc src = acc @ src"
proof (induction src arbitrary: acc)
  case Nil
  show ?case by (simp add: obj_spread_def)
next
  case (Cons p src)
  obtain k v where p: "p = (k, v)" by (cases p)
  have u: "AList.update k v acc = acc @ [(k, v)]"
    using Cons.prems(2) by (induction acc) (auto simp: p)
  show ?case
    using Cons.prems by (simp add: p obj_spread_Cons u Cons.IH image_Un Int_Un_distrib2)
qed

lemma obj_spread_Nil_left: "distinct (map fst src) \<Longrightarrow> obj_spread [] src = src"
  using obj_spread_append [of src "[]"] by simp


section \<open>Merge precedence\<close>

text \<open>
  C1. For every defaults, descriptor (config) and overrides object, a field of the merged
  options has the overrides value when overrides has the field, else the descriptor value
  when the descriptor has it, else what defaults has (nothing when defaults lacks it too).
  The value is taken whole from the winning layer, whatever it is: the merge is shallow.
  Objects have pairwise distinct keys.
\<close>

theorem mergeOptions_precedence:
  assumes "distinct (map fst defaults)" and "distinct (map fst config)"
    and "distinct (map fst overrides)"
  shows "map_of (mergeOptions config overrides defaults) f =
    (case map_of overrides f of
       Some v \<Rightarrow> Some v
     | None \<Rightarrow> (case map_of config f of Some v \<Rightarrow> Some v | None \<Rightarrow> map_of defaults f))"
  using assms
  by (simp add: mergeOptions_def map_of_obj_spread obj_spread_Nil_left split: option.splits)

text \<open>
  The nested \<open>define\<close> object of the descriptor replaces the one of defaults; their
  entries are not combined.
\<close>

theorem mergeOptions_precedence_witness:
  "distinct (map fst [(''outDir'', [(''dist'', 0::nat)]), (''define'', [(''a'', 1), (''b'', 2)])])
   \<and> distinct (map fst [(''define'', [(''c'', 3::nat)])])
   \<and> distinct (map fst [(''watch'', [(''false'', 0::nat)])])
   \<and> map_of (mergeOptions [(''define'', [(''c'', 3)])] [(''watch'', [(''false'', 0)])]
         [(''outDir'', [(''dist'', 0)]), (''define'', [(''a'', 1), (''b'', 2)])]) ''define''
       = Some [(''c'', 3::nat)]"
  using mergeOptions_precedence [of "[(''outDir'', [(''dist'', 0::nat)]), (''define'', [(''a'', 1), (''b'', 2)])]"
      "[(''define'', [(''c'', 3::nat)])]" "[(''watch'', [(''false'', 0::nat)])]" "''define''"]
  by simp

section \<open>The precondition gate\<close>

lemma member_update: "member (AList.update k v ob) k = v"
  by (simp add: member_def update_conv')

text \<open>
  C2, as amended. For every manifest whose \<open>exports\<close> is not \<open>null\<close> and every entry
  list: when \<open>exports\<close> is undefined or a plain object, \<open>updatePackageJson\<close> assigns the
  new \<open>exports\<close> and writes the file; otherwise (a string, an array, a number, a boolean)
  the manifest is returned as it was and nothing is written.
\<close>

theorem updatePackageJson_gate:
  assumes "member pkg ''exports'' \<noteq> JNull"
  shows "if member pkg ''exports'' = JUndefined \<or> is_plain_object (member pkg ''exports'')
         then fst (updatePackageJson H rank pkg entries)
                = AList.update ''exports'' (exports_value (grouped H entries)) pkg
              \<and> snd (updatePackageJson H rank pkg entries) \<noteq> None
         else updatePackageJson H rank pkg entries = (pkg, None)"
  using assms by (cases "member pkg ''exports''") (simp_all add: updatePackageJson_def Let_def)

theorem updatePackageJson_gate_witness:
  "member [(''name'', JStr ''core''), (''exports'', JStr ''./index.js'')] ''exports'' \<noteq> JNull
   \<and> updatePackageJson (posix_host ''/repo/code/core'') example_rank
         [(''name'', JStr ''core''), (''exports'', JStr ''./index.js'')]
         [\<lparr>file = ''./src/a.ts'', format = ''cjs''\<rparr>]
       = ([(''name'', JStr ''core''), (''exports'', JStr ''./index.js'')], None)"
  using updatePackageJson_gate [of "[(''name'', JStr ''core''), (''exports'', JStr ''./index.js'')]"
      "posix_host ''/repo/code/core''" example_rank "[\<lparr>file = ''./src/a.ts'', format = ''cjs''\<rparr>]"]
  by (simp add: member_def)

text \<open>
  The claim as stated fails where \<open>exports\<close> is \<open>null\<close>, which is neither undefined nor
  a plain object: the manifest is changed and written.
\<close>

theorem updatePackageJson_gate_null_counterexample:
  "fst (updatePackageJson (posix_host ''/repo/code/core'') example_rank
          [(''name'', JStr ''core''), (''exports'', JNull)] [])
     = [(''name'', JStr ''core''), (''exports'', JObj [(''./package.json'', JStr ''./package.json'')])]
   \<and> snd (updatePackageJson (posix_host ''/repo/code/core'') example_rank
          [(''name'', JStr ''core''), (''exports'', JNull)] []) \<noteq> None
   \<and> member [(''name'', JStr ''core''), (''exports'', JNull)] ''exports'' \<noteq> JUndefined
   \<and> \<not> is_plain_object (member [(''name'', JStr ''core''), (''exports'', JNull)] ''exports'')"
  by (simp add: updatePackageJson_def member_def grouped_def exports_value_def obj_spread_def Let_def)

text \<open>
  C10. When \<open>exports\<close> is \<open>null\<close> the gate passes (\<open>typeof null\<close> is \<open>object\<close>, and
  \<open>null\<close> is no array): the new \<open>exports\<close> is assigned and the manifest is written.
\<close>

theorem null_exports_passes_gate:
  assumes "member pkg ''exports'' = JNull"
  shows "typeof (member pkg ''exports'') = ''object'' \<and> \<not> isArray (member pkg ''exports'')
    \<and> updatePackageJson H rank pkg entries =
       (AList.update ''exports'' (exports_value (grouped H entries)) pkg,
        Some (join H [cwd H, ''package.json''],
              JSON_stringify
                (JObj (sortPkg rank (AList.update ''exports'' (exports_value (grouped H entries)) pkg)))
              @ [CHR 0x0A]))"
  using assms by (simp add: updatePackageJson_def Let_def)

theorem null_exports_passes_gate_witness:
  "member [(''exports'', JNull), (''name'', JStr ''@storybook/core'')] ''exports'' = JNull
   \<and> updatePackageJson (posix_host ''/repo/code/core'') example_rank
         [(''exports'', JNull), (''name'', JStr ''@storybook/core'')]
         [\<lparr>file = ''./src/index.ts'', format = ''esm''\<rparr>]
       = ([(''exports'', JObj [(''./package.json'', JStr ''./package.json''),
                               (''./dist/index'', JObj [(''types'', JStr ''./dist/index.d.ts''),
                                                        (''module'', JStr ''./dist/index.mjs'')])]),
           (''name'', JStr ''@storybook/core'')],
          Some (''/repo/code/core/package.json'',
                JSON_stringify (JObj
                  [(''name'', JStr ''@storybook/core''),
                   (''exports'', JObj [(''./package.json'', JStr ''./package.json''),
                               (''./dist/index'', JObj [(''types'', JStr ''./dist/index.d.ts''),
                                                        (''module'', JStr ''./dist/index.mjs'')])])])
                @ [CHR 0x0A]))"
proof -
  have g: "grouped (posix_host ''/repo/code/core'') [\<lparr>file = ''./src/index.ts'', format = ''esm''\<rparr>]
     = [(''./dist/index'', [(''types'', ''./dist/index.d.ts''), (''module'', ''./dist/index.mjs'')])]"
    by code_simp
  have j: "join (posix_host ''/repo/code/core'') [cwd (posix_host ''/repo/code/core''), ''package.json'']
     = ''/repo/code/core/package.json''"
    by code_simp
  have m: "member [(''exports'', JNull), (''name'', JStr ''@storybook/core'')] ''exports'' = JNull"
    by (simp add: member_def)
  show ?thesis
    using null_exports_passes_gate [OF m, of "posix_host ''/repo/code/core''" example_rank
        "[\<lparr>file = ''./src/index.ts'', format = ''esm''\<rparr>]"]
    by (simp add: m g j exports_value_def group_value_def obj_spread_def sortPkg_def example_rank_def)
qed

section \<open>Grouping the entries\<close>

lemma grouped_snoc: "grouped H (es @ [e]) = group_entry H (grouped H es) e"
  by (simp add: grouped_def)



lemma formatToType_cases:
  "property formatToType f = Some t \<Longrightarrow> t \<noteq> [] \<and> t \<noteq> ''types''"
  by (auto simp: property_def formatToType_def Object_prototype_def native_def split: if_splits)

lemma formatToType_module:
  "property formatToType f = Some ''module'' \<longleftrightarrow> f = ''esm'' \<or> f = ''iife''"
  by (auto simp: property_def formatToType_def Object_prototype_def native_def split: if_splits)

lemma formatToType_require:
  "property formatToType f = Some ''require'' \<longleftrightarrow> f = ''cjs''"
  by (auto simp: property_def formatToType_def Object_prototype_def native_def split: if_splits)

lemma formatToType_None:
  "property formatToType f = None \<longleftrightarrow> f \<notin> fst ` set formatToType \<and> f \<notin> fst ` set Object_prototype"
  by (cases "map_of formatToType f") (simp_all add: property_def map_of_eq_None_iff [symmetric])

lemma condition_snoc:
  "condition (grouped H (es @ [e])) k c =
     (case property formatToType (format e) of
        None \<Rightarrow> condition (grouped H es) k c
      | Some t \<Rightarrow>
          if outputKey H (file e) \<noteq> k then condition (grouped H es) k c
          else if c = t then
            Some (k @ (case property formatToExt (format e) of Some x \<Rightarrow> x | None \<Rightarrow> ''undefined''))
          else (case map_of (grouped H es) k of
                  None \<Rightarrow> (if c = ''types'' then Some (k @ ''.d.ts'') else None)
                | Some g \<Rightarrow> map_of g c))"
proof (cases "property formatToType (format e)")
  case None
  then show ?thesis by (simp add: grouped_snoc group_entry_def)
next
  case (Some t)
  with formatToType_cases have t: "t \<noteq> []" "t \<noteq> ''types''" by blast+
  show ?thesis
    using t by (auto simp: Some grouped_snoc group_entry_def condition_def Let_def update_conv'
        split: option.splits)
qed


lemma group_exists_snoc:
  "map_of (grouped H (es @ [e])) k = None \<longleftrightarrow>
     map_of (grouped H es) k = None
     \<and> \<not> (outputKey H (file e) = k \<and> property formatToType (format e) \<noteq> None)"
proof (cases "property formatToType (format e)")
  case None
  then show ?thesis by (simp add: grouped_snoc group_entry_def)
next
  case (Some t)
  with formatToType_cases have "t \<noteq> []" by blast
  then show ?thesis
    by (simp add: Some grouped_snoc group_entry_def Let_def update_conv')
qed

lemma group_exists:
  "map_of (grouped H es) k \<noteq> None \<longleftrightarrow>
     (\<exists>x\<in>set es. outputKey H (file x) = k \<and> property formatToType (format x) \<noteq> None)"
proof (induction es rule: rev_induct)
  case Nil
  show ?case by (simp add: grouped_def)
next
  case (snoc e es)
  show ?case
    using snoc.IH by (simp only: group_exists_snoc) auto
qed

lemma condition_types:
  "condition (grouped H es) k ''types'' =
     (if map_of (grouped H es) k = None then None else Some (k @ ''.d.ts''))"
proof (induction es rule: rev_induct)
  case Nil
  show ?case by (simp add: grouped_def condition_def)
next
  case (snoc e es)
  show ?case
  proof (cases "property formatToType (format e)")
    case None
    then show ?thesis
      using snoc.IH by (simp add: condition_snoc group_exists_snoc)
  next
    case (Some t)
    with formatToType_cases have "t \<noteq> ''types''" by blast
    then show ?thesis
      using snoc.IH
      by (subst condition_snoc) (auto simp: group_exists_snoc Some condition_def split: option.splits)
  qed
qed

lemma condition_last:
  assumes "c \<noteq> ''types''"
  shows "condition (grouped H es) k c =
     (let F = filter (\<lambda>x. outputKey H (file x) = k \<and> property formatToType (format x) = Some c) es
      in if F = [] then None
         else Some (k @ (case property formatToExt (format (last F)) of
                           Some x \<Rightarrow> x | None \<Rightarrow> ''undefined'')))"
proof (induction es rule: rev_induct)
  case Nil
  show ?case by (simp add: grouped_def condition_def)
next
  case (snoc e es)
  show ?case
  proof (cases "property formatToType (format e)")
    case None
    then show ?thesis
      using snoc.IH by (simp add: condition_snoc Let_def)
  next
    case (Some t)
    then show ?thesis
      using snoc.IH assms
      by (subst condition_snoc) (auto simp: Let_def condition_def split: option.splits)
  qed
qed

lemma unknown_skipped:
  "property formatToType (format u) = None \<Longrightarrow> group_entry H acc u = acc"
  by (simp add: group_entry_def)

lemma ext_values:
  "property formatToExt ''cjs'' = Some ''.js''"
  "property formatToExt ''esm'' = Some ''.mjs''"
  "property formatToExt ''iife'' = Some ''.js''"
  by (simp_all add: property_def formatToExt_def)

text \<open>
  C4, as amended. For any entry list: an entry with the tag \<open>cjs\<close> gives the group of its
  outputKey \<open>types\<close> = outputKey + \<open>.d.ts\<close> and \<open>require\<close> = outputKey + \<open>.js\<close>; the
  group of a key has a \<open>module\<close> exactly when an entry with that outputKey has the tag
  \<open>esm\<close> or \<open>iife\<close>, and the last such entry decides it: \<open>.mjs\<close> for \<open>esm\<close>, \<open>.js\<close>
  for \<open>iife\<close>. The tables give each of the three tags one condition and one extension.
  An entry whose tag is neither in the tables nor the name of a property
  inherited from \<open>Object.prototype\<close> leaves the groups as they were, and a key has a group
  only if some entry of that outputKey has a tag of the tables or such an inherited name.
\<close>

theorem format_mapping:
  "(e \<in> set es \<and> format e = ''cjs'' \<longrightarrow>
      condition (grouped H es) (outputKey H (file e)) ''types'' = Some (outputKey H (file e) @ ''.d.ts'')
      \<and> condition (grouped H es) (outputKey H (file e)) ''require'' = Some (outputKey H (file e) @ ''.js''))
   \<and> condition (grouped H es) k ''module'' =
       (let F = filter (\<lambda>x. outputKey H (file x) = k \<and> (format x = ''esm'' \<or> format x = ''iife'')) es
        in if F = [] then None
           else Some (k @ (if format (last F) = ''esm'' then ''.mjs'' else ''.js'')))
   \<and> map (\<lambda>t. (property formatToType t, property formatToExt t)) [''cjs'', ''esm'', ''iife'']
       = [(Some ''require'', Some ''.js''), (Some ''module'', Some ''.mjs''),
          (Some ''module'', Some ''.js'')]
   \<and> (format u \<notin> fst ` set formatToType \<and> format u \<notin> fst ` set Object_prototype \<longrightarrow>
        group_entry H acc u = acc)
   \<and> (map_of (grouped H es) k \<noteq> None \<longleftrightarrow>
        (\<exists>x\<in>set es. outputKey H (file x) = k
           \<and> (format x \<in> fst ` set formatToType \<or> format x \<in> fst ` set Object_prototype)))"
proof (intro conjI impI)
  assume e: "e \<in> set es \<and> format e = ''cjs''"
  let ?k = "outputKey H (file e)"
  from e have c: "property formatToType (format e) = Some ''require''"
    by (simp add: formatToType_require)
  with e have ex: "map_of (grouped H es) ?k \<noteq> None"
    by (subst group_exists) force
  then show "condition (grouped H es) ?k ''types'' = Some (?k @ ''.d.ts'')"
    by (simp add: condition_types)
  let ?F = "filter (\<lambda>x. outputKey H (file x) = ?k \<and> property formatToType (format x) = Some ''require'') es"
  from e c have ne: "?F \<noteq> []" by (auto simp: filter_empty_conv)
  have "last ?F \<in> set ?F" using ne by (rule last_in_set)
  then have "format (last ?F) = ''cjs''" by (simp add: formatToType_require)
  then show "condition (grouped H es) ?k ''require'' = Some (?k @ ''.js'')"
    using ne by (simp add: condition_last Let_def ext_values)
next
  let ?F = "filter (\<lambda>x. outputKey H (file x) = k \<and> (format x = ''esm'' \<or> format x = ''iife'')) es"
  have "?F \<noteq> [] \<Longrightarrow> format (last ?F) = ''esm'' \<or> format (last ?F) = ''iife''"
    using last_in_set [of ?F] by auto
  then show "condition (grouped H es) k ''module'' =
       (let F = ?F in if F = [] then None
           else Some (k @ (if format (last F) = ''esm'' then ''.mjs'' else ''.js'')))"
    by (auto simp: condition_last formatToType_module Let_def ext_values)
next
  show "map (\<lambda>t. (property formatToType t, property formatToExt t)) [''cjs'', ''esm'', ''iife'']
       = [(Some ''require'', Some ''.js''), (Some ''module'', Some ''.mjs''),
          (Some ''module'', Some ''.js'')]"
    by (simp add: property_def formatToType_def formatToExt_def)
next
  assume "format u \<notin> fst ` set formatToType \<and> format u \<notin> fst ` set Object_prototype"
  then show "group_entry H acc u = acc"
    by (simp add: unknown_skipped formatToType_None)
next
  show "map_of (grouped H es) k \<noteq> None \<longleftrightarrow>
        (\<exists>x\<in>set es. outputKey H (file x) = k
           \<and> (format x \<in> fst ` set formatToType \<or> format x \<in> fst ` set Object_prototype))"
    by (simp only: group_exists formatToType_None) blast
qed

theorem format_mapping_witness:
  "\<lparr>file = ''./src/a.ts'', format = ''cjs''\<rparr>
     \<in> set [\<lparr>file = ''./src/a.ts'', format = ''cjs''\<rparr>, \<lparr>file = ''./src/a.ts'', format = ''esm''\<rparr>]
   \<and> condition (grouped (posix_host ''/repo/code/core'')
        [\<lparr>file = ''./src/a.ts'', format = ''cjs''\<rparr>, \<lparr>file = ''./src/a.ts'', format = ''esm''\<rparr>])
        ''./dist/a'' ''types'' = Some ''./dist/a.d.ts''
   \<and> condition (grouped (posix_host ''/repo/code/core'')
        [\<lparr>file = ''./src/a.ts'', format = ''cjs''\<rparr>, \<lparr>file = ''./src/a.ts'', format = ''esm''\<rparr>])
        ''./dist/a'' ''require'' = Some ''./dist/a.js''
   \<and> condition (grouped (posix_host ''/repo/code/core'')
        [\<lparr>file = ''./src/a.ts'', format = ''cjs''\<rparr>, \<lparr>file = ''./src/a.ts'', format = ''esm''\<rparr>])
        ''./dist/a'' ''module'' = Some ''./dist/a.mjs''
   \<and> ''umd'' \<notin> fst ` set formatToType \<and> ''umd'' \<notin> fst ` set Object_prototype
   \<and> group_entry (posix_host ''/repo/code/core'') [] \<lparr>file = ''./src/a.ts'', format = ''umd''\<rparr> = []"
proof -
  have k: "outputKey (posix_host ''/repo/code/core'') ''./src/a.ts'' = ''./dist/a''"
    by code_simp
  have u: "''umd'' \<notin> fst ` set formatToType \<and> ''umd'' \<notin> fst ` set Object_prototype"
    by (simp add: formatToType_def Object_prototype_def)
  show ?thesis
    using format_mapping [of "\<lparr>file = ''./src/a.ts'', format = ''cjs''\<rparr>"
        "[\<lparr>file = ''./src/a.ts'', format = ''cjs''\<rparr>, \<lparr>file = ''./src/a.ts'', format = ''esm''\<rparr>]"
        "posix_host ''/repo/code/core''" "''./dist/a''" "\<lparr>file = ''./src/a.ts'', format = ''umd''\<rparr>" "[]"]
    by (simp add: k u)
qed

text \<open>
  The claim as stated fails for a tag that is not in the tables but names an inherited
  property: \<open>formatToType['constructor']\<close> is the function \<open>Object\<close>, which is truthy,
  so the entry creates a group.
\<close>

theorem format_mapping_inherited_counterexample:
  "grouped (posix_host ''/repo/code/core'') [\<lparr>file = ''./src/a.ts'', format = ''constructor''\<rparr>]
     = [(''./dist/a'', [(''types'', ''./dist/a.d.ts''),
          (''function Object() { [native code] }'', ''./dist/afunction Object() { [native code] }'')])]
   \<and> ''constructor'' \<notin> fst ` set formatToType"
  by code_simp

section \<open>The output key on the two platforms\<close>

text \<open>
  C5. The key of \<open>./src/foo/bar.ts\<close> is \<open>./dist/foo/bar\<close> on a POSIX host; on a Windows
  host \<open>join\<close> writes backslashes and the key is \<open>./dist\foo\bar\<close>.
\<close>

theorem outputKey_platform:
  "outputKey (posix_host wd) ''./src/foo/bar.ts'' = ''./dist/foo/bar''
   \<and> outputKey (win32_host wd) ''./src/foo/bar.ts''
       = ''./dist'' @ [backslash] @ ''foo'' @ [backslash] @ ''bar''"
  by code_simp

section \<open>The new export map\<close>





section \<open>Idempotence\<close>

lemma map_of_filter_key:
  "(\<And>p. fst p = k \<Longrightarrow> P p) \<Longrightarrow> map_of (filter P xs) k = map_of xs k"
  by (induction xs) auto

lemma map_of_sortPkg: "map_of (sortPkg rank pkg) k = map_of pkg k"
proof -
  let ?f = "\<lambda>p::string \<times> jsval. rank (fst p)"
  have "map_of (sort_key ?f pkg) k = map_of (filter (\<lambda>p. ?f p = rank k) (sort_key ?f pkg)) k"
    by (rule map_of_filter_key [symmetric]) simp
  also have "\<dots> = map_of (filter (\<lambda>p. ?f p = rank k) pkg) k"
    by (simp only: sort_key_stable)
  also have "\<dots> = map_of pkg k"
    by (rule map_of_filter_key) simp
  finally show ?thesis by (simp add: sortPkg_def)
qed

lemma sortPkg_idem: "sortPkg rank (sortPkg rank pkg) = sortPkg rank pkg"
  by (simp add: sortPkg_def sort_key_id_if_sorted)

lemma member_sortPkg: "member (sortPkg rank pkg) k = member pkg k"
  by (simp add: member_def map_of_sortPkg)

lemma exports_value_object: "is_plain_object (exports_value g)"
  by (simp add: exports_value_def)

lemma gate_plain_object:
  "is_plain_object v \<Longrightarrow> typeof v = ''object'' \<and> \<not> isArray v"
  by (cases v) simp_all

lemma stringify_object_last: "last (JSON_stringify (JObj ps)) = CHR ''}''"
  by (simp add: JSON_stringify_def Let_def)

text \<open>
  C6. For every entry list and every manifest that passes the gate, the first application
  writes the text of the sorted manifest and a newline after its closing brace; applied
  again with the same entries to that sorted manifest (the value the written text
  denotes), \<open>updatePackageJson\<close> leaves it as it is and writes the same path and the same
  text.
\<close>

theorem updatePackageJson_idempotent:
  assumes "(typeof (member pkg ''exports'') = ''object'' \<and> \<not> isArray (member pkg ''exports''))
           \<or> member pkg ''exports'' = JUndefined"
  shows "snd (updatePackageJson H rank pkg entries)
           = Some (join H [cwd H, ''package.json''],
                   JSON_stringify (JObj (sortPkg rank (fst (updatePackageJson H rank pkg entries))))
                   @ [CHR 0x0A])
    \<and> updatePackageJson H rank (sortPkg rank (fst (updatePackageJson H rank pkg entries))) entries
           = (sortPkg rank (fst (updatePackageJson H rank pkg entries)),
              snd (updatePackageJson H rank pkg entries))
    \<and> last (JSON_stringify (JObj (sortPkg rank (fst (updatePackageJson H rank pkg entries)))))
           = CHR ''}''"
proof -
  let ?E = "exports_value (grouped H entries)"
  let ?pkg1 = "AList.update ''exports'' ?E pkg"
  let ?m = "sortPkg rank ?pkg1"
  have first: "updatePackageJson H rank pkg entries
      = (?pkg1, Some (join H [cwd H, ''package.json''], JSON_stringify (JObj ?m) @ [CHR 0x0A]))"
    using assms by (simp add: updatePackageJson_def Let_def)
  have e: "member ?m ''exports'' = ?E"
    by (simp add: member_sortPkg member_update)
  have "map_of ?m ''exports'' = Some ?E"
    by (simp add: map_of_sortPkg update_conv')
  then have same: "AList.update ''exports'' ?E ?m = ?m"
    by (rule update_triv)
  have gate: "typeof ?E = ''object'' \<and> \<not> isArray ?E"
    using exports_value_object by (rule gate_plain_object)
  have second: "updatePackageJson H rank ?m entries
      = (?m, Some (join H [cwd H, ''package.json''], JSON_stringify (JObj ?m) @ [CHR 0x0A]))"
    using gate by (simp add: updatePackageJson_def Let_def e same sortPkg_idem)
  show ?thesis
    by (simp add: first second stringify_object_last)
qed

theorem updatePackageJson_idempotent_witness:
  "((typeof (member [(''version'', JStr ''8.0.0''), (''name'', JStr ''core'')] ''exports'') = ''object''
      \<and> \<not> isArray (member [(''version'', JStr ''8.0.0''), (''name'', JStr ''core'')] ''exports''))
     \<or> member [(''version'', JStr ''8.0.0''), (''name'', JStr ''core'')] ''exports'' = JUndefined)
   \<and> updatePackageJson (posix_host ''/repo/code/core'') example_rank
        (sortPkg example_rank (fst (updatePackageJson (posix_host ''/repo/code/core'') example_rank
           [(''version'', JStr ''8.0.0''), (''name'', JStr ''core'')]
           [\<lparr>file = ''./src/a.ts'', format = ''cjs''\<rparr>])))
        [\<lparr>file = ''./src/a.ts'', format = ''cjs''\<rparr>]
     = (sortPkg example_rank (fst (updatePackageJson (posix_host ''/repo/code/core'') example_rank
           [(''version'', JStr ''8.0.0''), (''name'', JStr ''core'')]
           [\<lparr>file = ''./src/a.ts'', format = ''cjs''\<rparr>])),
        snd (updatePackageJson (posix_host ''/repo/code/core'') example_rank
           [(''version'', JStr ''8.0.0''), (''name'', JStr ''core'')]
           [\<lparr>file = ''./src/a.ts'', format = ''cjs''\<rparr>]))
   \<and> sortPkg example_rank (fst (updatePackageJson (posix_host ''/repo/code/core'') example_rank
           [(''version'', JStr ''8.0.0''), (''name'', JStr ''core'')]
           [\<lparr>file = ''./src/a.ts'', format = ''cjs''\<rparr>]))
     = [(''name'', JStr ''core''), (''version'', JStr ''8.0.0''),
        (''exports'', JObj [(''./package.json'', JStr ''./package.json''),
               (''./dist/a'', JObj [(''types'', JStr ''./dist/a.d.ts''),
                                    (''require'', JStr ''./dist/a.js'')])])]"
proof -
  have g: "grouped (posix_host ''/repo/code/core'') [\<lparr>file = ''./src/a.ts'', format = ''cjs''\<rparr>]
     = [(''./dist/a'', [(''types'', ''./dist/a.d.ts''), (''require'', ''./dist/a.js'')])]"
    by code_simp
  have m: "member [(''version'', JStr ''8.0.0''), (''name'', JStr ''core'')] ''exports'' = JUndefined"
    by (simp add: member_def)
  have s: "sortPkg example_rank (fst (updatePackageJson (posix_host ''/repo/code/core'') example_rank
           [(''version'', JStr ''8.0.0''), (''name'', JStr ''core'')]
           [\<lparr>file = ''./src/a.ts'', format = ''cjs''\<rparr>]))
     = [(''name'', JStr ''core''), (''version'', JStr ''8.0.0''),
        (''exports'', JObj [(''./package.json'', JStr ''./package.json''),
               (''./dist/a'', JObj [(''types'', JStr ''./dist/a.d.ts''),
                                    (''require'', JStr ''./dist/a.js'')])])]"
    by (simp add: updatePackageJson_def m g Let_def exports_value_def group_value_def obj_spread_def
        sortPkg_def example_rank_def)
  show ?thesis
    using updatePackageJson_idempotent
      [of "[(''version'', JStr ''8.0.0''), (''name'', JStr ''core'')]"
        "posix_host ''/repo/code/core''" example_rank
        "[\<lparr>file = ''./src/a.ts'', format = ''cjs''\<rparr>]"]
    by (simp only: m s simp_thms)
qed

section \<open>Normalizing the configuration export\<close>

text \<open>
  C7, as amended. An array is returned as it is; a plain object is wrapped as a
  one-element list; a string, a number, a boolean and \<open>undefined\<close> give the empty list; a
  function is called with an empty object, and its result, awaited, is returned as it is
  when it is an array and wrapped as a one-element list otherwise, whatever its shape (a
  failure of the function fails the call). So a descriptor set that is an array or a
  plain object gives the same list directly and as the result of a synchronous or
  asynchronous function.
\<close>

theorem getOptionsArray_shapes:
  "getOptionsArray call (JArr xs) = Inr xs
   \<and> getOptionsArray call (JObj ps) = Inr [JObj ps]
   \<and> getOptionsArray call (JStr s) = Inr []
   \<and> getOptionsArray call (JNum n) = Inr []
   \<and> getOptionsArray call (JBool b) = Inr []
   \<and> getOptionsArray call JUndefined = Inr []
   \<and> getOptionsArray call (JFun f) =
       (case call f (JObj []) of
          Returns r \<Rightarrow> Inr (if isArray r then elements r else [r])
        | Resolves r \<Rightarrow> Inr (if isArray r then elements r else [r])
        | Fails \<Rightarrow> Inl Rejected)
   \<and> ((call f (JObj []) = Returns v \<or> call f (JObj []) = Resolves v)
        \<and> (isArray v \<or> is_plain_object v)
       \<longrightarrow> getOptionsArray call (JFun f) = getOptionsArray call v)"
proof -
  have c: "concat_arg r = (if isArray r then elements r else [r])" for r
    by (cases r) simp_all
  have o: "isArray v \<or> is_plain_object v \<Longrightarrow>
      (if isArray v then elements v else [v]) = projr (getOptionsArray call v)
      \<and> getOptionsArray call v = Inr (projr (getOptionsArray call v))"
    by (cases v) (simp_all add: getOptionsArray_def)
  show ?thesis
    using o by (auto simp: getOptionsArray_def c split: outcome.splits)
qed

theorem getOptionsArray_shapes_witness:
  "(example_call ''async'' (JObj []) = Returns (JArr [JObj [(''format'', JStr ''esm'')]])
      \<or> example_call ''async'' (JObj []) = Resolves (JArr [JObj [(''format'', JStr ''esm'')]]))
   \<and> (isArray (JArr [JObj [(''format'', JStr ''esm'')]])
      \<or> is_plain_object (JArr [JObj [(''format'', JStr ''esm'')]]))
   \<and> getOptionsArray example_call (JFun ''async'') = Inr [JObj [(''format'', JStr ''esm'')]]
   \<and> getOptionsArray example_call (JArr [JObj [(''format'', JStr ''esm'')]])
       = Inr [JObj [(''format'', JStr ''esm'')]]"
  using getOptionsArray_shapes [of example_call "[JObj [(''format'', JStr ''esm'')]]" _ _ _ _
      "''async''" "JArr [JObj [(''format'', JStr ''esm'')]]"]
  by simp

text \<open>
  The claim as stated fails for a function that returns a string: the string becomes the
  one element of the list, where the same string as the export itself gives the empty list.
\<close>

theorem getOptionsArray_function_result_counterexample:
  "getOptionsArray example_call (JFun ''bare'') = Inr [JStr ''./src/index.ts'']
   \<and> getOptionsArray example_call (JStr ''./src/index.ts'') = Inr []"
  by (simp add: getOptionsArray_def)

section \<open>The driver without configuration, and in optimized mode\<close>

text \<open>
  C8. With an empty configuration list the driver raises \<open>No tsup-configs found\<close> after
  the loads (and the reset, when asked for): the handler prints the stack and exits with
  status 1, and no build, no stub and no manifest write is in the trace.
\<close>

theorem run_without_configs:
  "run H rank gmp ci flags [] pkg =
     ([Import_module (join H [cwd H, ''tsup.config.ts'']), Read_file (join H [cwd H, ''package.json''])]
        @ (if hasFlag flags ''reset'' then [Empty_dir (join H [cwd H, ''dist''])] else [])
        @ [Console_error_stack No_tsup_configs, Process_exit 1],
      1)
   \<and> filter produces (fst (run H rank gmp ci flags [] pkg)) = []"
  by (simp add: run_def Let_def getBaseOptions_def)

text \<open>
  C9. In optimized mode, with at least one descriptor, the calls of the stub generator
  in the trace are exactly those for the three fixed prebuild files (lines 114 to 118 are
  not guarded by \<open>optimized\<close>), and the run ends with status 0.
\<close>

theorem optimized_run_writes_stubs:
  "hasFlag (''--optimized'' # flags) ''optimized''
   \<and> filter is_mapper (fst (run H rank gmp ci (''--optimized'' # flags) (config # configs) pkg))
       = map Dts_mapper prebuild_files
   \<and> snd (run H rank gmp ci (''--optimized'' # flags) (config # configs) pkg) = 0"
proof -
  have f: "hasFlag (''--optimized'' # flags) ''optimized''"
    by (simp add: hasFlag_def)
  have m: "filter is_mapper (map Dts_mapper fs) = map Dts_mapper fs" for fs
    by (induction fs) simp_all
  show ?thesis
    by (simp add: f run_def Let_def getBaseOptions_def filter_map comp_def m split: option.splits)
qed

end
